theory Spec2Isabelle
  imports Complex_Main
begin

section \<open>Numbers, rounding and errors\<close>

text \<open>
  The calculators are JavaScript functions over \<^verbatim>\<open>number\<close>. A number is modelled as a
  \<^typ>\<open>real\<close>: the arithmetic of the model is exact, so the rounding error of IEEE double
  arithmetic, \<^verbatim>\<open>NaN\<close> and the infinities are outside the model. Every statement below
  is a statement about the formulas the code evaluates, read over the reals.

  \<^verbatim>\<open>throw new Error(msg)\<close> is the value \<open>Inl (Error msg)\<close>; an \<^verbatim>\<open>async\<close> function
  that resolves with \<open>v\<close> is \<open>Inr v\<close>.
\<close>

datatype error = Error string

text \<open>The rupee sign of the messages, as its three UTF-8 bytes.\<close>

definition rupee :: string where
  "rupee = [CHR 0xE2, CHR 0x82, CHR 0xB9]"

text \<open>\<^verbatim>\<open>Math.round(x)\<close>: the nearest integer, a tie going up.\<close>

definition Math_round :: "real \<Rightarrow> real" where
  "Math_round x = of_int \<lfloor>x + 1 / 2\<rfloor>"

text \<open>\<^verbatim>\<open>Number.isInteger(x)\<close> on a finite number.\<close>

definition isInteger :: "real \<Rightarrow> bool" where
  "isInteger x = (of_int \<lfloor>x\<rfloor> = x)"

text \<open>
  \<^verbatim>\<open>Math.pow(x, y)\<close>: repeated multiplication for an integer exponent, the real power
  otherwise. Every call of the calculators has a base \<open>1 + rate\<close>, which is positive.
\<close>

definition Math_pow :: "real \<Rightarrow> real \<Rightarrow> real" where
  "Math_pow x y =
     (if isInteger y then (if 0 \<le> y then x ^ nat \<lfloor>y\<rfloor> else 1 / x ^ nat \<lfloor>- y\<rfloor>)
      else x powr y)"

section \<open>EMI calculator (emiCalculatorController.js)\<close>










section \<open>Simple and compound interest calculator (interestCalculatorController.js)\<close>




record breakdown_entry =
  bd_year :: real
  bd_principalAtStart :: real
  bd_interestForYear :: real
  bd_totalAtEnd :: real

text \<open>
  The loop of the \<^verbatim>\<open>simple\<close> branch of \<^verbatim>\<open>generateYearWiseBreakdown\<close> (lines 122 to 138).
  The \<^verbatim>\<open>break\<close> of line 137 is the branch that returns without a further iteration.
\<close>

function breakdown_simple_loop ::
  "real \<Rightarrow> real \<Rightarrow> real \<Rightarrow> int \<Rightarrow> int \<Rightarrow> breakdown_entry list \<Rightarrow> breakdown_entry list"
where
  "breakdown_simple_loop principal' yearlyInterest time roundedTime year breakdown =
     (if year \<le> roundedTime then
        (let isPartialYear = (of_int year > time);
             actualYear = (if isPartialYear then time else of_int year);
             interestForYear =
               (if isPartialYear then yearlyInterest * (time - of_int \<lfloor>time\<rfloor>)
                else yearlyInterest);
             totalAtEnd = principal' + (yearlyInterest * actualYear);
             breakdown' = breakdown @
               [\<lparr> bd_year = (if isPartialYear then time else of_int year),
                   bd_principalAtStart = principal',
                   bd_interestForYear = interestForYear,
                   bd_totalAtEnd = totalAtEnd \<rparr>]
         in if year = \<lfloor>time\<rfloor> then breakdown'
            else breakdown_simple_loop principal' yearlyInterest time roundedTime (year + 1)
                   breakdown')
      else breakdown)"
  by pat_completeness auto
termination
  by (relation "measure (\<lambda>(p, y, t, rt, yr, b). nat (rt + 1 - yr))") auto

declare breakdown_simple_loop.simps [simp del]

text \<open>The loop of the compound branch (lines 143 to 160), with its \<^verbatim>\<open>runningPrincipal\<close>.\<close>

function breakdown_compound_loop ::
  "real \<Rightarrow> real \<Rightarrow> int \<Rightarrow> int \<Rightarrow> real \<Rightarrow> breakdown_entry list \<Rightarrow> breakdown_entry list"
where
  "breakdown_compound_loop rate time roundedTime year runningPrincipal breakdown =
     (if year \<le> roundedTime then
        (let isPartialYear = (of_int year > time);
             actualYear = (if isPartialYear then (time - of_int \<lfloor>time\<rfloor>) else 1);
             principalAtStart = runningPrincipal;
             interestForYear =
               runningPrincipal * (Math_pow (1 + rate / 100) actualYear - 1);
             totalAtEnd = principalAtStart + interestForYear;
             breakdown' = breakdown @
               [\<lparr> bd_year = (if isPartialYear then time else of_int year),
                   bd_principalAtStart = principalAtStart,
                   bd_interestForYear = interestForYear,
                   bd_totalAtEnd = totalAtEnd \<rparr>]
         in if year = \<lfloor>time\<rfloor> then breakdown'
            else breakdown_compound_loop rate time roundedTime (year + 1) totalAtEnd
                   breakdown')
      else breakdown)"
  by pat_completeness auto
termination
  by (relation "measure (\<lambda>(r, t, rt, yr, p, b). nat (rt + 1 - yr))") auto

declare breakdown_compound_loop.simps [simp del]

definition generateYearWiseBreakdown ::
  "real \<Rightarrow> real \<Rightarrow> real \<Rightarrow> string \<Rightarrow> breakdown_entry list"
where
  "generateYearWiseBreakdown principal' rate time interestType =
     (let roundedTime = \<lceil>time\<rceil> in
      if interestType = ''simple'' then
        (let yearlyInterest = (principal' * rate) / 100
         in breakdown_simple_loop principal' yearlyInterest time roundedTime 1 [])
      else breakdown_compound_loop rate time roundedTime 1 principal' [])"





section \<open>SIP calculator (sipCalculatorController.js)\<close>

definition sip_validateInputs :: "real \<Rightarrow> real \<Rightarrow> real \<Rightarrow> error + unit" where
  "sip_validateInputs monthlyInvestment investmentPeriod expectedROI =
     (if monthlyInvestment = 0 \<or> monthlyInvestment < 500 then
        Inl (Error (''Monthly investment must be at least '' @ rupee @ ''500''))
      else if investmentPeriod = 0 \<or> investmentPeriod < 1 \<or> investmentPeriod > 50 then
        Inl (Error ''Investment period must be between 1 and 50 years'')
      else if expectedROI = 0 \<or> expectedROI < 1 \<or> expectedROI > 20 then
        Inl (Error ''Expected ROI must be between 1% and 20%'')
      else Inr ())"

text \<open>The annuity-due future value: payments at the start of each month.\<close>

definition sip_calculateFutureValueOfAnnuity :: "real \<Rightarrow> real \<Rightarrow> real \<Rightarrow> real" where
  "sip_calculateFutureValueOfAnnuity monthlyPayment annualROI months =
     (let monthlyRate = annualROI / 12 / 100 in
      if monthlyRate = 0 then monthlyPayment * months
      else
        (let factor = Math_pow (1 + monthlyRate) months;
             futureValue = monthlyPayment * ((factor - 1) / monthlyRate) * (1 + monthlyRate)
         in futureValue))"

record sip_growth_entry =
  sg_year :: int
  sg_totalInvestment :: real
  sg_estimatedReturns :: real
  sg_totalValue :: real

text \<open>The loop of \<^verbatim>\<open>calculateYearWiseGrowth\<close> (lines 92 to 112).\<close>

function sip_growth_loop ::
  "real \<Rightarrow> real \<Rightarrow> real \<Rightarrow> int \<Rightarrow> sip_growth_entry list \<Rightarrow> sip_growth_entry list"
where
  "sip_growth_loop monthlyInvestment monthlyRate years year growthData =
     (if of_int year \<le> years then
        (let months = of_int year * 12;
             totalInvestment = monthlyInvestment * months;
             totalValue =
               (if monthlyRate = 0 then totalInvestment
                else
                  (let factor = Math_pow (1 + monthlyRate) months
                   in monthlyInvestment * ((factor - 1) / monthlyRate) * (1 + monthlyRate)));
             estimatedReturns = totalValue - totalInvestment
         in sip_growth_loop monthlyInvestment monthlyRate years (year + 1)
              (growthData @
               [\<lparr> sg_year = year,
                   sg_totalInvestment = Math_round (totalInvestment * 100) / 100,
                   sg_estimatedReturns = Math_round (estimatedReturns * 100) / 100,
                   sg_totalValue = Math_round (totalValue * 100) / 100 \<rparr>]))
      else growthData)"
  by pat_completeness auto
termination
  by (relation "measure (\<lambda>(m, r, ys, y, g). nat (\<lfloor>ys\<rfloor> + 1 - y))")
     (auto simp: le_floor_iff)

declare sip_growth_loop.simps [simp del]

definition sip_calculateYearWiseGrowth :: "real \<Rightarrow> real \<Rightarrow> real \<Rightarrow> sip_growth_entry list" where
  "sip_calculateYearWiseGrowth monthlyInvestment annualROI years =
     (let monthlyRate = annualROI / 12 / 100
      in sip_growth_loop monthlyInvestment monthlyRate years 1 [])"

record sip_result =
  sip_monthlyInvestment :: real
  sip_investmentPeriod :: real
  sip_expectedROI :: real
  sip_totalInvestment :: real
  sip_estimatedReturns :: real
  sip_totalValue :: real
  sip_returnsPercentage :: real
  sip_yearWiseGrowth :: "sip_growth_entry list"

definition calculateSIP :: "real \<Rightarrow> real \<Rightarrow> real \<Rightarrow> error + sip_result" where
  "calculateSIP monthlyInvestment investmentPeriod expectedROI =
     (case sip_validateInputs monthlyInvestment investmentPeriod expectedROI of
        Inl e \<Rightarrow> Inl e
      | Inr _ \<Rightarrow>
        (let months = investmentPeriod * 12;
             totalInvestment = monthlyInvestment * months;
             totalValue = sip_calculateFutureValueOfAnnuity monthlyInvestment expectedROI months;
             estimatedReturns = totalValue - totalInvestment;
             returnsPercentage =
               (if totalInvestment > 0 then (estimatedReturns / totalInvestment) * 100 else 0);
             yearWiseGrowth =
               sip_calculateYearWiseGrowth monthlyInvestment expectedROI investmentPeriod
         in Inr \<lparr> sip_monthlyInvestment = monthlyInvestment,
                  sip_investmentPeriod = investmentPeriod,
                  sip_expectedROI = expectedROI,
                  sip_totalInvestment = Math_round (totalInvestment * 100) / 100,
                  sip_estimatedReturns = Math_round (estimatedReturns * 100) / 100,
                  sip_totalValue = Math_round (totalValue * 100) / 100,
                  sip_returnsPercentage = Math_round (returnsPercentage * 100) / 100,
                  sip_yearWiseGrowth = yearWiseGrowth \<rparr>))"

section \<open>Retirement corpus calculator (retirementCorpusCalculatorController.js)\<close>

definition corpus_validateInputs :: "real \<Rightarrow> real \<Rightarrow> real \<Rightarrow> real \<Rightarrow> error + unit" where
  "corpus_validateInputs currentAge retirementAge monthlySavings expectedROI =
     (if currentAge = 0 \<or> currentAge < 18 \<or> currentAge > 100 then
        Inl (Error ''Current age must be between 18 and 100'')
      else if retirementAge = 0 \<or> retirementAge < 40 \<or> retirementAge > 100 then
        Inl (Error ''Retirement age must be between 40 and 100'')
      else if retirementAge \<le> currentAge then
        Inl (Error ''Retirement age must be greater than current age'')
      else if monthlySavings = 0 \<or> monthlySavings \<le> 0 then
        Inl (Error ''Monthly savings must be greater than 0'')
      else if expectedROI = 0 \<or> expectedROI < 1 \<or> expectedROI > 20 then
        Inl (Error ''Expected ROI must be between 1% and 20%'')
      else Inr ())"

text \<open>The ordinary-annuity future value: payments at the end of each month.\<close>

definition corpus_calculateFutureValueOfAnnuity :: "real \<Rightarrow> real \<Rightarrow> real \<Rightarrow> real" where
  "corpus_calculateFutureValueOfAnnuity monthlyPayment annualROI months =
     (let monthlyRate = annualROI / 12 / 100 in
      if monthlyRate = 0 then monthlyPayment * months
      else
        (let factor = Math_pow (1 + monthlyRate) months;
             futureValue = monthlyPayment * ((factor - 1) / monthlyRate)
         in futureValue))"

record corpus_growth_entry =
  cg_year :: int
  cg_age :: real
  cg_totalInvested :: real
  cg_corpus :: real

text \<open>The loop of \<^verbatim>\<open>calculateYearWiseGrowth\<close> (lines 97 to 116).\<close>

function corpus_growth_loop ::
  "real \<Rightarrow> real \<Rightarrow> real \<Rightarrow> real \<Rightarrow> int \<Rightarrow> corpus_growth_entry list \<Rightarrow> corpus_growth_entry list"
where
  "corpus_growth_loop monthlySavings monthlyRate years currentAge year growthData =
     (if of_int year \<le> years then
        (let months = of_int year * 12;
             corpus =
               (if monthlyRate = 0 then monthlySavings * months
                else
                  (let factor = Math_pow (1 + monthlyRate) months
                   in monthlySavings * ((factor - 1) / monthlyRate)));
             totalInvested = monthlySavings * months
         in corpus_growth_loop monthlySavings monthlyRate years currentAge (year + 1)
              (growthData @
               [\<lparr> cg_year = year,
                   cg_age = currentAge + of_int year,
                   cg_totalInvested = Math_round (totalInvested * 100) / 100,
                   cg_corpus = Math_round (corpus * 100) / 100 \<rparr>]))
      else growthData)"
  by pat_completeness auto
termination
  by (relation "measure (\<lambda>(m, r, ys, a, y, g). nat (\<lfloor>ys\<rfloor> + 1 - y))")
     (auto simp: le_floor_iff)

declare corpus_growth_loop.simps [simp del]

definition corpus_calculateYearWiseGrowth ::
  "real \<Rightarrow> real \<Rightarrow> real \<Rightarrow> real \<Rightarrow> corpus_growth_entry list"
where
  "corpus_calculateYearWiseGrowth monthlySavings annualROI years currentAge =
     (let monthlyRate = annualROI / 12 / 100
      in corpus_growth_loop monthlySavings monthlyRate years currentAge 1 [])"

record corpus_result =
  cr_currentAge :: real
  cr_retirementAge :: real
  cr_yearsUntilRetirement :: real
  cr_monthlySavings :: real
  cr_expectedROI :: real
  cr_retirementCorpus :: real
  cr_totalSavingsInvested :: real
  cr_totalReturnsEarned :: real
  cr_monthlyPensionEstimate :: real
  cr_yearWiseGrowth :: "corpus_growth_entry list"

definition calculateCorpus :: "real \<Rightarrow> real \<Rightarrow> real \<Rightarrow> real \<Rightarrow> error + corpus_result" where
  "calculateCorpus currentAge retirementAge monthlySavings expectedROI =
     (case corpus_validateInputs currentAge retirementAge monthlySavings expectedROI of
        Inl e \<Rightarrow> Inl e
      | Inr _ \<Rightarrow>
        (let yearsUntilRetirement = retirementAge - currentAge;
             months = yearsUntilRetirement * 12;
             corpus = corpus_calculateFutureValueOfAnnuity monthlySavings expectedROI months;
             totalSavingsInvested = monthlySavings * months;
             totalReturnsEarned = corpus - totalSavingsInvested;
             retirementYears = 20;
             monthlyPensionEstimate = corpus / (retirementYears * 12);
             yearWiseGrowth =
               corpus_calculateYearWiseGrowth monthlySavings expectedROI yearsUntilRetirement
                 currentAge
         in Inr \<lparr> cr_currentAge = currentAge,
                  cr_retirementAge = retirementAge,
                  cr_yearsUntilRetirement = yearsUntilRetirement,
                  cr_monthlySavings = monthlySavings,
                  cr_expectedROI = expectedROI,
                  cr_retirementCorpus = Math_round (corpus * 100) / 100,
                  cr_totalSavingsInvested = Math_round (totalSavingsInvested * 100) / 100,
                  cr_totalReturnsEarned = Math_round (totalReturnsEarned * 100) / 100,
                  cr_monthlyPensionEstimate = Math_round (monthlyPensionEstimate * 100) / 100,
                  cr_yearWiseGrowth = yearWiseGrowth \<rparr>))"

section \<open>FD calculator (fdCalculatorController.js)\<close>






section \<open>Loan eligibility calculator (unnamed/part_004, second file)\<close>

definition loan_validateInputs :: "real \<Rightarrow> real \<Rightarrow> real \<Rightarrow> real \<Rightarrow> error + unit" where
  "loan_validateInputs monthlyIncome emiCapacity interestRate loanTenure =
     (if monthlyIncome = 0 \<or> monthlyIncome < 10000 then
        Inl (Error (''Monthly income must be at least '' @ rupee @ ''10,000''))
      else if emiCapacity = 0 \<or> emiCapacity < 1000 then
        Inl (Error (''EMI capacity must be at least '' @ rupee @ ''1,000''))
      else if emiCapacity \<ge> monthlyIncome then
        Inl (Error ''EMI capacity must be less than monthly income'')
      else if emiCapacity > monthlyIncome * 0.8 then
        Inl (Error ''EMI capacity should not exceed 80% of monthly income'')
      else if interestRate = 0 \<or> interestRate < 1 \<or> interestRate > 30 then
        Inl (Error ''Interest rate must be between 1% and 30%'')
      else if loanTenure = 0 \<or> loanTenure < 1 \<or> loanTenure > 30 then
        Inl (Error ''Loan tenure must be between 1 and 30 years'')
      else Inr ())"

text \<open>The reverse EMI formula: the principal a monthly payment amortises.\<close>

definition calculateLoanAmountFromEMI :: "real \<Rightarrow> real \<Rightarrow> real \<Rightarrow> real" where
  "calculateLoanAmountFromEMI emi annualROI months =
     (let monthlyRate = annualROI / 12 / 100 in
      if monthlyRate = 0 then emi * months
      else
        (let factor = Math_pow (1 + monthlyRate) months;
             loanAmount = emi * ((factor - 1) / (monthlyRate * factor))
         in loanAmount))"

record eligibility_details =
  ed_incomeMultiplier :: real
  ed_debtToIncomeRatio :: real

record loan_result =
  ln_monthlyIncome :: real
  ln_emiCapacity :: real
  ln_emiCapacityPercentage :: real
  ln_interestRate :: real
  ln_loanTenure :: real
  ln_eligibleLoanAmount :: real
  ln_maximumEMI :: real
  ln_totalInterestPayable :: real
  ln_totalAmountPayable :: real
  ln_eligibilityDetails :: eligibility_details

definition calculateLoanEligibility ::
  "real \<Rightarrow> real \<Rightarrow> real \<Rightarrow> real \<Rightarrow> error + loan_result"
where
  "calculateLoanEligibility monthlyIncome emiCapacity interestRate loanTenure =
     (case loan_validateInputs monthlyIncome emiCapacity interestRate loanTenure of
        Inl e \<Rightarrow> Inl e
      | Inr _ \<Rightarrow>
        (let months = loanTenure * 12;
             eligibleLoanAmount = calculateLoanAmountFromEMI emiCapacity interestRate months;
             monthlyROI = interestRate / 12 / 100;
             totalInterestPayable =
               (if monthlyROI > 0 then
                  (let totalPayableAmount = emiCapacity * months
                   in totalPayableAmount - eligibleLoanAmount)
                else 0);
             totalAmountPayable = eligibleLoanAmount + totalInterestPayable;
             emiCapacityPercentage = (emiCapacity / monthlyIncome) * 100
         in Inr \<lparr> ln_monthlyIncome = monthlyIncome,
                  ln_emiCapacity = emiCapacity,
                  ln_emiCapacityPercentage = Math_round (emiCapacityPercentage * 100) / 100,
                  ln_interestRate = interestRate,
                  ln_loanTenure = loanTenure,
                  ln_eligibleLoanAmount = Math_round (eligibleLoanAmount * 100) / 100,
                  ln_maximumEMI = emiCapacity,
                  ln_totalInterestPayable = Math_round (totalInterestPayable * 100) / 100,
                  ln_totalAmountPayable = Math_round (totalAmountPayable * 100) / 100,
                  ln_eligibilityDetails =
                    \<lparr> ed_incomeMultiplier =
                        Math_round ((eligibleLoanAmount / monthlyIncome) * 100) / 100,
                      ed_debtToIncomeRatio =
                        Math_round (emiCapacityPercentage * 100) / 100 \<rparr> \<rparr>))"


section \<open>The rows of the amortization schedule, in closed form\<close>



section \<open>The entries of the year-wise breakdown, in closed form\<close>





section \<open>Facts about the numeric primitives\<close>


lemma Math_pow_nat: "Math_pow x (real n) = x ^ n"
  by (simp add: Math_pow_def isInteger_def)

lemma Math_pow_numeral: "Math_pow x (numeral k) = x ^ numeral k"
  using Math_pow_nat [of x "numeral k"] by simp

lemma Math_pow_one: "Math_pow x 1 = x"
  using Math_pow_nat [of x 1] by simp


section \<open>EMI calculator: the result of calculateEMI\<close>






section \<open>Annuity calculators at a zero rate\<close>








section \<open>The EMI formula and its inverse\<close>



section \<open>FD calculator: quarterly compounding\<close>





section \<open>Loan eligibility: the debt-to-income policy\<close>



section \<open>A zero rate is rejected at validation\<close>

lemma sip_zero_rejected: "\<exists>msg. calculateSIP m p 0 = Inl (Error msg)"
  by (simp add: calculateSIP_def sip_validateInputs_def)

lemma sip_zero_message:
  "500 \<le> m \<Longrightarrow> 1 \<le> p \<Longrightarrow> p \<le> 50 \<Longrightarrow>
   calculateSIP m p 0 = Inl (Error ''Expected ROI must be between 1% and 20%'')"
  by (simp add: calculateSIP_def sip_validateInputs_def)

lemma corpus_zero_rejected: "\<exists>msg. calculateCorpus a b s 0 = Inl (Error msg)"
  by (simp add: calculateCorpus_def corpus_validateInputs_def)

lemma loan_zero_rejected: "\<exists>msg. calculateLoanEligibility i e 0 t = Inl (Error msg)"
  by (simp add: calculateLoanEligibility_def loan_validateInputs_def)

lemma sip_resolved_roi:
  assumes "calculateSIP m p roi = Inr res"
  shows "1 \<le> roi"
proof -
  have "sip_validateInputs m p roi = Inr ()"
    using assms by (simp add: calculateSIP_def split: sum.splits)
  then show ?thesis
    by (simp add: sip_validateInputs_def split: if_splits)
qed

text \<open>
  Claim C9, as the code has it. \<^verbatim>\<open>calculateSIP\<close> rejects every call with an expected
  ROI of 0, and with the message about the expected ROI whenever the monthly investment
  and the investment period pass their own, earlier checks; \<^verbatim>\<open>calculateCorpus\<close> and
  \<^verbatim>\<open>calculateLoanEligibility\<close> reject a rate of 0 too. Whenever \<^verbatim>\<open>calculateSIP\<close>
  resolves, the monthly rate is not 0 and the future value is computed by the
  non-zero-rate formula; the zero-rate branch is reached by calling
  \<^verbatim>\<open>calculateFutureValueOfAnnuity\<close> directly.
\<close>

theorem zero_rate_rejected:
  "(\<exists>msg. calculateSIP m p 0 = Inl (Error msg)) \<and>
   (500 \<le> m \<and> 1 \<le> p \<and> p \<le> 50 \<longrightarrow>
      calculateSIP m p 0 = Inl (Error ''Expected ROI must be between 1% and 20%'')) \<and>
   (\<exists>msg. calculateCorpus a b s 0 = Inl (Error msg)) \<and>
   (\<exists>msg. calculateLoanEligibility i e 0 t = Inl (Error msg)) \<and>
   (\<forall>roi res. calculateSIP m p roi = Inr res \<longrightarrow>
      roi / 12 / 100 \<noteq> 0 \<and>
      sip_calculateFutureValueOfAnnuity m roi (p * 12) =
        m * ((Math_pow (1 + roi / 12 / 100) (p * 12) - 1) / (roi / 12 / 100)) *
          (1 + roi / 12 / 100)) \<and>
   sip_calculateFutureValueOfAnnuity m 0 n = m * n"
proof -
  have "roi / 12 / 100 \<noteq> 0 \<and>
      sip_calculateFutureValueOfAnnuity m roi (p * 12) =
        m * ((Math_pow (1 + roi / 12 / 100) (p * 12) - 1) / (roi / 12 / 100)) *
          (1 + roi / 12 / 100)"
    if "calculateSIP m p roi = Inr res" for roi res
  proof -
    have "1 \<le> roi" using that by (rule sip_resolved_roi)
    then show ?thesis by (simp add: sip_calculateFutureValueOfAnnuity_def Let_def)
  qed
  moreover have "sip_calculateFutureValueOfAnnuity m 0 n = m * n"
    by (simp add: sip_calculateFutureValueOfAnnuity_def)
  ultimately show ?thesis
    using sip_zero_rejected [of m p] sip_zero_message [of m p]
      corpus_zero_rejected [of a b s] loan_zero_rejected [of i e t]
    by blast
qed

theorem zero_rate_rejected_witness:
  "calculateSIP 5000 10 0 = Inl (Error ''Expected ROI must be between 1% and 20%'') \<and>
   (\<exists>res. calculateSIP 5000 10 12 = Inr res) \<and> (12::real) / 12 / 100 \<noteq> 0"
proof -
  have ok: "\<exists>res. calculateSIP 5000 10 12 = Inr res"
    by (simp add: calculateSIP_def sip_validateInputs_def Let_def)
  with zero_rate_rejected [of 5000 10] show ?thesis by auto
qed

text \<open>
  The message is not the one about the expected ROI for every call with an expected ROI
  of 0: a monthly investment below 500 is reported first.
\<close>

theorem calculateSIP_zero_roi_counterexample:
  "calculateSIP 100 10 0 = Inl (Error (''Monthly investment must be at least '' @ rupee @ ''500'')) \<and>
   calculateSIP 100 10 0 \<noteq> Inl (Error ''Expected ROI must be between 1% and 20%'')"
  by (simp add: calculateSIP_def sip_validateInputs_def rupee_def)

section \<open>Retirement corpus: the monthly pension estimate\<close>

text \<open>
  Claim C10. For every valid input \<^verbatim>\<open>calculateCorpus\<close> resolves, and its
  \<^verbatim>\<open>monthlyPensionEstimate\<close> is the unrounded corpus divided by 240, rounded to two
  decimals.
\<close>

theorem corpus_monthlyPensionEstimate:
  assumes "18 \<le> currentAge" and "currentAge \<le> 100"
    and "40 \<le> retirementAge" and "retirementAge \<le> 100"
    and "currentAge < retirementAge" and "0 < monthlySavings"
    and "1 \<le> expectedROI" and "expectedROI \<le> 20"
  shows "\<exists>res. calculateCorpus currentAge retirementAge monthlySavings expectedROI = Inr res \<and>
     cr_monthlyPensionEstimate res =
       Math_round
         (corpus_calculateFutureValueOfAnnuity monthlySavings expectedROI
            ((retirementAge - currentAge) * 12) / 240 * 100) / 100"
  using assms by (simp add: calculateCorpus_def corpus_validateInputs_def Let_def)

theorem corpus_monthlyPensionEstimate_witness:
  "\<exists>res. calculateCorpus 99 100 10000 12 = Inr res \<and> cr_monthlyPensionEstimate res = 528.44"
  using corpus_monthlyPensionEstimate [of 99 100 10000 12]
  by (simp add: corpus_calculateFutureValueOfAnnuity_def Math_pow_numeral Math_round_def
      floor_eq_iff power_divide)


section \<open>Interest calculator: the year-wise breakdown\<close>






text \<open>
  Claim C2, at its failing input. For \<open>T = 2.5\<close> the loop bound is \<open>\<lceil>T\<rceil> = 3\<close>, but the
  \<^verbatim>\<open>break\<close> on \<^verbatim>\<open>year === Math.floor(time)\<close> leaves the loop after year 2: the breakdown
  has the two whole years only, and the prorated entry of the third, partial year is
  never pushed (by \<open>generateYearWiseBreakdown_whole\<close> this is so for every \<open>T \<ge> 1\<close>).
\<close>

theorem generateYearWiseBreakdown_stops_at_floor:
  "generateYearWiseBreakdown 10000 5 (5 / 2) ''simple'' =
     [\<lparr> bd_year = 1, bd_principalAtStart = 10000, bd_interestForYear = 500,
         bd_totalAtEnd = 10500 \<rparr>,
      \<lparr> bd_year = 2, bd_principalAtStart = 10000, bd_interestForYear = 500,
         bd_totalAtEnd = 11000 \<rparr>] \<and>
   generateYearWiseBreakdown 10000 5 (5 / 2) ''compound'' =
     [\<lparr> bd_year = 1, bd_principalAtStart = 10000, bd_interestForYear = 500,
         bd_totalAtEnd = 10500 \<rparr>,
      \<lparr> bd_year = 2, bd_principalAtStart = 10500, bd_interestForYear = 525,
         bd_totalAtEnd = 11025 \<rparr>]"
proof -
  have c: "\<lceil>5 / 2 :: real\<rceil> = 3" by (simp add: ceiling_eq_iff)
  have f: "\<lfloor>5 / 2 :: real\<rfloor> = 2" by (simp add: floor_eq_iff)
  show ?thesis
    by (simp add: generateYearWiseBreakdown_def Let_def c f Math_pow_one
        breakdown_simple_loop.simps [of _ _ _ _ 1] breakdown_simple_loop.simps [of _ _ _ _ 2]
        breakdown_compound_loop.simps [of _ _ _ 1] breakdown_compound_loop.simps [of _ _ _ 2])
qed

section \<open>Interest calculator: the breakdown returned by calculateInterest\<close>












section \<open>EMI calculator: the amortization schedule\<close>























end
